theory Spec2Isabelle
  imports Main "HOL-Library.Word"
begin

unbundle bit_operations_syntax

section \<open>Data model of drivers/misc/axi\_fpga.c\<close>

text \<open>
  The driver is built for 32-bit ARM (its probe routine issues \<^verbatim>\<open>MCR p15\<close> instructions),
  so \<^verbatim>\<open>unsigned long\<close>, \<^verbatim>\<open>unsigned int\<close> and pointers are 32-bit words; their
  arithmetic wraps. The \<^verbatim>\<open>int\<close> fields \<^verbatim>\<open>dev_open\<close>, \<^verbatim>\<open>irq_happened\<close> (an
  \<^verbatim>\<open>atomic_t\<close>), \<^verbatim>\<open>irq_number\<close> and \<^verbatim>\<open>direction\<close> are only stored, compared and tested
  for zero, never computed with, and are modelled as \<open>int\<close>; so are the \<^verbatim>\<open>int\<close> return
  values.
\<close>

type_synonym ulong = "32 word"
type_synonym uint = "32 word"

text \<open>A \<^verbatim>\<open>struct page *\<close>.\<close>
type_synonym page = "32 word"

text \<open>A \<^verbatim>\<open>pgprot_t\<close>.\<close>
type_synonym pgprot = "32 word"

text \<open>\<^verbatim>\<open>struct buffer_addr\<close>; the field \<^verbatim>\<open>size\<close> is named \<open>size_b\<close> here.\<close>
record buffer_addr =
  virt_addr :: ulong
  phys_addr :: ulong
  size_b :: ulong
  direction :: int

text \<open>
  \<^verbatim>\<open>struct axi_fpga_drvdata\<close>. The fields \<^verbatim>\<open>pdev\<close>, \<^verbatim>\<open>axi_fpga_device\<close> and \<^verbatim>\<open>name\<close>
  only identify the device to the kernel and are left out; the wait queue \<^verbatim>\<open>wait\<close> is
  represented by the events a sleeping reader receives (see \<open>wait_event_interruptible\<close>).
\<close>
record axi_fpga_drvdata =
  dev_open :: int
  irq_happened :: int
  dev_physaddr :: ulong
  dev_size :: ulong
  slave_phys_addr :: ulong
  fpga_buffer_pages :: page
  fpga_buffer_npages :: uint
  irq_number :: int

text \<open>\<^verbatim>\<open>struct vm_operations_struct\<close>, with the two hooks the driver names.\<close>
datatype vm_operations_struct = Vm_ops (vm_open: "nat option") (vm_close: "nat option")

text \<open>The fields of \<^verbatim>\<open>struct vm_area_struct\<close> that \<^verbatim>\<open>axi_fpga_mmap\<close> reads or writes.\<close>
record vm_area_struct =
  vm_start :: ulong
  vm_end :: ulong
  vm_pgoff :: ulong
  vm_page_prot :: pgprot
  vm_ops :: "vm_operations_struct option"

datatype dma_data_direction = DMA_TO_DEVICE | DMA_FROM_DEVICE

subsection \<open>Kernel services\<close>

text \<open>
  The kernel services the driver calls are not part of the driver's source. Those whose
  result the driver uses are parameters of the model, collected in one record; a theorem
  about all kernels holds whatever these services answer.
  \<^item> \<open>request_irq k n\<close>: the return value of \<^verbatim>\<open>request_irq\<close> for line \<open>n\<close> (0 on success);
  \<^item> \<open>get_user_pages k a\<close>: the return value of \<^verbatim>\<open>get_user_pages(a, 1, 0, &page, NULL)\<close>
    and what it stored through \<^verbatim>\<open>&page\<close> (\<open>None\<close>: nothing, the local stays uninitialised);
  \<^item> \<open>dma_map_page k p n dir\<close>: the bus address returned by \<^verbatim>\<open>dma_map_page\<close> at offset 0;
  \<^item> \<open>remap_pfn_range k addr pfn n prot\<close>: the return value of \<^verbatim>\<open>remap_pfn_range\<close>;
  \<^item> \<open>pgprot_noncached k\<close> and \<open>page_to_pfn k\<close>: the macros of those names.
\<close>
record kernel =
  request_irq :: "int \<Rightarrow> int"
  get_user_pages :: "ulong \<Rightarrow> int \<times> page option"
  dma_map_page :: "page option \<Rightarrow> ulong \<Rightarrow> dma_data_direction \<Rightarrow> ulong"
  remap_pfn_range :: "ulong \<Rightarrow> ulong \<Rightarrow> ulong \<Rightarrow> pgprot \<Rightarrow> int"
  pgprot_noncached :: "pgprot \<Rightarrow> pgprot"
  page_to_pfn :: "page \<Rightarrow> ulong"

text \<open>
  Every call of a kernel service that acts on the world outside the driver's own structure
  is recorded, in order, with its arguments. \<^verbatim>\<open>dev_info\<close> and the \<^verbatim>\<open>mmap_sem\<close> lock
  operations are not recorded.
\<close>
datatype kcall =
    Request_irq int
  | Free_irq int
  | Wake_up_interruptible
  | Poll_wait
  | Get_user_pages ulong
  | Dma_map_page "page option" ulong dma_data_direction
  | Dma_sync_single_for_device ulong ulong dma_data_direction
  | Dma_sync_single_for_cpu ulong ulong dma_data_direction
  | Remap_pfn_range ulong ulong ulong pgprot

subsection \<open>Constants from kernel headers\<close>

text \<open>The error numbers of \<^verbatim>\<open>errno.h\<close> and the poll bits of \<^verbatim>\<open>poll.h\<close>.\<close>

definition EIO :: int where "EIO = 5"
definition EBUSY :: int where "EBUSY = 16"
definition EINVAL :: int where "EINVAL = 22"
definition ENOTTY :: int where "ENOTTY = 25"
definition ERESTARTSYS :: int where "ERESTARTSYS = 512"

definition IRQ_HANDLED :: int where "IRQ_HANDLED = 1"

definition POLLIN :: uint where "POLLIN = 0x0001"
definition POLLRDNORM :: uint where "POLLRDNORM = 0x0040"

text \<open>\<^verbatim>\<open>PAGE_SHIFT\<close> and \<^verbatim>\<open>PAGE_SIZE\<close> of 32-bit ARM (\<^verbatim>\<open>asm/page.h\<close>).\<close>

definition PAGE_SHIFT :: nat where "PAGE_SHIFT = 12"
definition PAGE_SIZE :: ulong where "PAGE_SIZE = push_bit PAGE_SHIFT 1"

text \<open>
  The command encoding of \<^verbatim>\<open>asm-generic/ioctl.h\<close>: direction in bits 30-31, argument
  size in bits 16-29, type in bits 8-15, number in bits 0-7. \<^verbatim>\<open>_IOWR\<close> has direction 3
  (read and write), \<^verbatim>\<open>_IOW\<close> direction 1; \<^verbatim>\<open>sizeof(struct buffer_addr)\<close> is 16 and
  \<^verbatim>\<open>'a'\<close> is 0x61.
\<close>

definition IOC :: "uint \<Rightarrow> uint \<Rightarrow> uint \<Rightarrow> uint \<Rightarrow> uint" where
  "IOC dir type nr sz = push_bit 30 dir OR push_bit 8 type OR nr OR push_bit 16 sz"

definition IOWR :: "uint \<Rightarrow> uint \<Rightarrow> uint \<Rightarrow> uint" where
  "IOWR type nr sz = IOC 3 type nr sz"

definition IOW :: "uint \<Rightarrow> uint \<Rightarrow> uint \<Rightarrow> uint" where
  "IOW type nr sz = IOC 1 type nr sz"

definition sizeof_buffer_addr :: uint where "sizeof_buffer_addr = 16"

definition AXI_FPGA_GET_PAGE :: uint where
  "AXI_FPGA_GET_PAGE = IOWR 0x61 0x30 sizeof_buffer_addr"

definition AXI_FPGA_GIVE_PAGE :: uint where
  "AXI_FPGA_GIVE_PAGE = IOW 0x61 0x31 sizeof_buffer_addr"

definition AXI_FPGA_TAKE_PAGE :: uint where
  "AXI_FPGA_TAKE_PAGE = IOW 0x61 0x32 sizeof_buffer_addr"

section \<open>The file operations\<close>

text \<open>
  Each operation takes the driver structure and returns its return value, the structure as
  the call leaves it, and the kernel calls it made.
\<close>

subsection \<open>Interrupt handler\<close>

definition axi_fpga_irq_handler ::
  "axi_fpga_drvdata \<Rightarrow> int \<times> axi_fpga_drvdata \<times> kcall list" where
  "axi_fpga_irq_handler d =
     (IRQ_HANDLED, d\<lparr>irq_happened := 1\<rparr>, [Wake_up_interruptible])"

subsection \<open>open and release\<close>

definition axi_fpga_open ::
  "kernel \<Rightarrow> axi_fpga_drvdata \<Rightarrow> int \<times> axi_fpga_drvdata \<times> kcall list" where
  "axi_fpga_open k d =
     (if dev_open d \<noteq> 0 then (- EBUSY, d, [])
      else
        let d1 = d\<lparr>dev_open := 1\<rparr> in
        if request_irq k (irq_number d1) \<noteq> 0
        then (- EBUSY, d1, [Request_irq (irq_number d1)])
        else (0, d1, [Request_irq (irq_number d1)]))"

definition axi_fpga_release ::
  "axi_fpga_drvdata \<Rightarrow> int \<times> axi_fpga_drvdata \<times> kcall list" where
  "axi_fpga_release d =
     (if dev_open d = 0 then (- EIO, d, [])
      else (0, d\<lparr>dev_open := 0\<rparr>, [Free_irq (irq_number d)]))"

subsection \<open>poll\<close>

text \<open>
  The return type is \<^verbatim>\<open>unsigned int\<close>: \<^verbatim>\<open>return -EIO\<close> converts the negative value to
  the word \<open>2 ^ 32 - 5\<close>.
\<close>

definition axi_fpga_poll ::
  "axi_fpga_drvdata \<Rightarrow> uint \<times> axi_fpga_drvdata \<times> kcall list" where
  "axi_fpga_poll d =
     (if dev_open d = 0 then (word_of_int (- EIO), d, [])
      else
        let mask = (0 :: uint);
            mask = (if irq_happened d = 1 then mask OR POLLIN OR POLLRDNORM else mask)
        in (mask, d, [Poll_wait]))"

subsection \<open>read\<close>

text \<open>What can happen to a reader asleep on the wait queue.\<close>
datatype wait_event = Irq_fires | Signal_pending

text \<open>
  The macro \<^verbatim>\<open>wait_event_interruptible(wq, condition)\<close> of \<^verbatim>\<open>linux/wait.h\<close>: it returns 0
  at once when the condition holds; otherwise the caller sleeps and, each time it is woken,
  returns 0 if the condition holds by then and \<^verbatim>\<open>-ERESTARTSYS\<close> if a signal is pending.
  The list holds what happens while the caller sleeps, in order: the interrupt firing runs
  the handler. When the list ends with the condition still false the caller sleeps for
  ever: the result is \<open>None\<close>. The events not consumed are returned.
\<close>
fun wait_event_interruptible ::
  "(axi_fpga_drvdata \<Rightarrow> bool) \<Rightarrow> axi_fpga_drvdata \<Rightarrow> wait_event list \<Rightarrow>
     (int \<times> axi_fpga_drvdata \<times> wait_event list) option" where
  "wait_event_interruptible cond d [] = (if cond d then Some (0, d, []) else None)"
| "wait_event_interruptible cond d (e # es) =
     (if cond d then Some (0, d, e # es)
      else case e of
        Irq_fires \<Rightarrow> wait_event_interruptible cond (fst (snd (axi_fpga_irq_handler d))) es
      | Signal_pending \<Rightarrow> Some (- ERESTARTSYS, d, es))"

text \<open>
  The value of \<^verbatim>\<open>wait_event_interruptible\<close> is discarded by the source, which then clears
  the flag and returns 0.
\<close>
definition axi_fpga_read ::
  "axi_fpga_drvdata \<Rightarrow> wait_event list \<Rightarrow> (int \<times> axi_fpga_drvdata \<times> wait_event list) option" where
  "axi_fpga_read d evs =
     (if dev_open d = 0 then Some (- EIO, d, evs)
      else case wait_event_interruptible (\<lambda>d. irq_happened d = 1) d evs of
        None \<Rightarrow> None
      | Some (_, d1, evs1) \<Rightarrow> Some (0, d1\<lparr>irq_happened := 0\<rparr>, evs1))"

subsection \<open>ioctl\<close>

text \<open>
  \<open>ubuf\<close> is the \<^verbatim>\<open>struct buffer_addr\<close> in user memory that \<^verbatim>\<open>arg\<close> points to (the source
  ignores the results of \<^verbatim>\<open>copy_from_user\<close> and \<^verbatim>\<open>copy_to_user\<close>; the model takes the
  pointer to be valid). The third component of the result is that structure after the call.
\<close>
definition axi_fpga_ioctl ::
  "kernel \<Rightarrow> axi_fpga_drvdata \<Rightarrow> uint \<Rightarrow> buffer_addr \<Rightarrow>
     int \<times> axi_fpga_drvdata \<times> buffer_addr \<times> kcall list" where
  "axi_fpga_ioctl k d cmd ubuf =
     (let buf_addr = ubuf; retval = (0 :: int) in
      if cmd = AXI_FPGA_GET_PAGE then
        let (res, page) = get_user_pages k (virt_addr buf_addr);
            retval = (if res = 0 then - EINVAL else retval);
            dir = (if direction buf_addr \<noteq> 0 then DMA_TO_DEVICE else DMA_FROM_DEVICE);
            buf_addr = buf_addr\<lparr>phys_addr := dma_map_page k page (size_b buf_addr) dir\<rparr>
        in (retval, d, buf_addr,
            [Get_user_pages (virt_addr ubuf), Dma_map_page page (size_b ubuf) dir])
      else if cmd = AXI_FPGA_GIVE_PAGE then
        (0, d, ubuf,
         [Dma_sync_single_for_device (phys_addr buf_addr) (size_b buf_addr)
            (if direction buf_addr \<noteq> 0 then DMA_TO_DEVICE else DMA_FROM_DEVICE)])
      else if cmd = AXI_FPGA_TAKE_PAGE then
        (0, d, ubuf,
         [Dma_sync_single_for_cpu (phys_addr buf_addr) (size_b buf_addr)
            (if direction buf_addr \<noteq> 0 then DMA_TO_DEVICE else DMA_FROM_DEVICE)])
      else (- ENOTTY, d, ubuf, []))"

subsection \<open>mmap\<close>

text \<open>
  \<^verbatim>\<open>1 << d->fpga_buffer_npages\<close> shifts an \<^verbatim>\<open>int\<close>, and the product with the
  \<^verbatim>\<open>unsigned long\<close> \<^verbatim>\<open>PAGE_SIZE\<close> is taken in \<^verbatim>\<open>unsigned long\<close>: below 31 the shifted
  value converts to the word \<open>push_bit n 1\<close>. C leaves a shift by 31 or more undefined; the
  model gives it the value of the word shift, and the theorems on the buffer size assume a
  geometry that fits the address space, which bounds the exponent by 19.
\<close>
definition buffer_bytes :: "axi_fpga_drvdata \<Rightarrow> ulong" where
  "buffer_bytes d = push_bit (unat (fpga_buffer_npages d)) 1 * PAGE_SIZE"

definition axi_fpga_mmap_ops :: vm_operations_struct where
  "axi_fpga_mmap_ops = Vm_ops None None"

definition axi_fpga_mmap ::
  "kernel \<Rightarrow> axi_fpga_drvdata \<Rightarrow> vm_area_struct \<Rightarrow>
     int \<times> axi_fpga_drvdata \<times> vm_area_struct \<times> kcall list" where
  "axi_fpga_mmap k d vma =
     (if dev_open d = 0 then (- EIO, d, vma, [])
      else if vm_pgoff vma \<noteq> 0 then (- EINVAL, d, vma, [])
      else
        let expected_size = dev_size d + buffer_bytes d;
            sz = vm_end vma - vm_start vma
        in
        if sz \<noteq> expected_size then (- EINVAL, d, vma, [])
        else
          let vma1 = vma\<lparr>vm_page_prot := pgprot_noncached k (vm_page_prot vma)\<rparr>;
              addr = vm_start vma1;
              c1 = Remap_pfn_range addr (drop_bit PAGE_SHIFT (dev_physaddr d)) (dev_size d)
                     (vm_page_prot vma1)
          in
          if remap_pfn_range k addr (drop_bit PAGE_SHIFT (dev_physaddr d)) (dev_size d)
               (vm_page_prot vma1) \<noteq> 0
          then (- EIO, d, vma1, [c1])
          else
            let addr = dev_size d;
                c2 = Remap_pfn_range addr (page_to_pfn k (fpga_buffer_pages d)) (buffer_bytes d)
                       (vm_page_prot vma1)
            in
            if remap_pfn_range k addr (page_to_pfn k (fpga_buffer_pages d)) (buffer_bytes d)
                 (vm_page_prot vma1) \<noteq> 0
            then (- EIO, d, vma1, [c1, c2])
            else (0, d, vma1\<lparr>vm_ops := Some axi_fpga_mmap_ops\<rparr>, [c1, c2]))"

section \<open>Harnesses and the specification's vocabulary\<close>

subsection \<open>Concrete inputs\<close>

text \<open>
  A device as the probe routine leaves it: a 4096-byte register window, a buffer of
  \<open>2 ^ 2\<close> pages, session closed, no event latched; and a kernel all of whose services
  succeed.
\<close>

definition example_dev :: axi_fpga_drvdata where
  "example_dev =
     \<lparr>dev_open = 0, irq_happened = 0, dev_physaddr = 0x40000000, dev_size = 0x1000,
      slave_phys_addr = 0x1F000000, fpga_buffer_pages = 0xC0800000, fpga_buffer_npages = 2,
      irq_number = 61\<rparr>"

definition example_open_dev :: axi_fpga_drvdata where
  "example_open_dev = example_dev\<lparr>dev_open := 1\<rparr>"

definition example_kernel :: kernel where
  "example_kernel =
     \<lparr>request_irq = (\<lambda>_. 0),
      get_user_pages = (\<lambda>_. (1, Some 0xC0900000)),
      dma_map_page = (\<lambda>_ _ _. 0x1E000000),
      remap_pfn_range = (\<lambda>_ _ _ _. 0),
      pgprot_noncached = (\<lambda>p. p AND NOT 0x3C),
      page_to_pfn = (\<lambda>_. 0x1F000)\<rparr>"

definition example_buf :: buffer_addr where
  "example_buf = \<lparr>virt_addr = 0x76F01000, phys_addr = 0, size_b = 0x1000, direction = 1\<rparr>"

text \<open>A mapping request of the full size, 4096 + 4 * 4096 bytes, at offset 0.\<close>
definition example_vma :: vm_area_struct where
  "example_vma =
     \<lparr>vm_start = 0x76F00000, vm_end = 0x76F05000, vm_pgoff = 0, vm_page_prot = 0x3F,
      vm_ops = None\<rparr>"

subsection \<open>Mapping geometry\<close>

text \<open>
  The sizes the specification speaks of, as natural numbers: the control window, the
  buffer of \<open>2 ^ fpga_buffer_npages\<close> pages of 4096 bytes, and the size a mapping request
  asks for.
\<close>

definition controlSize :: "axi_fpga_drvdata \<Rightarrow> nat" where
  "controlSize d = unat (dev_size d)"

definition bufferSize :: "axi_fpga_drvdata \<Rightarrow> nat" where
  "bufferSize d = 2 ^ unat (fpga_buffer_npages d) * 4096"

definition requestedSize :: "vm_area_struct \<Rightarrow> nat" where
  "requestedSize vma = unat (vm_end vma - vm_start vma)"

text \<open>
  Whether a recorded \<^verbatim>\<open>remap_pfn_range(vma, addr, pfn, size, prot)\<close> covers the user
  address \<open>va\<close>: the call maps the \<open>size\<close> bytes from \<open>addr\<close> on.
\<close>
fun remap_covers :: "ulong \<Rightarrow> kcall \<Rightarrow> bool" where
  "remap_covers va (Remap_pfn_range addr pfn n prot) =
     (unat addr \<le> unat va \<and> unat va < unat addr + unat n)"
| "remap_covers va _ = False"

subsection \<open>Event channel\<close>

definition eventFlag :: "axi_fpga_drvdata \<Rightarrow> bool" where
  "eventFlag d = (irq_happened d = 1)"

text \<open>The input-ready indication of poll.\<close>
definition input_ready :: uint where
  "input_ready = POLLIN OR POLLRDNORM"

text \<open>\<open>n\<close> poll calls in a row: the masks returned and the structure afterwards.\<close>
fun poll_repeat :: "nat \<Rightarrow> axi_fpga_drvdata \<Rightarrow> uint list \<times> axi_fpga_drvdata" where
  "poll_repeat 0 d = ([], d)"
| "poll_repeat (Suc n) d =
     (case axi_fpga_poll d of (m, d1, _) \<Rightarrow>
        (case poll_repeat n d1 of (ms, d2) \<Rightarrow> (m # ms, d2)))"

text \<open>
  The two actors on the event flag. \<open>Trigger\<close> is the interrupt handler running; \<open>Wait\<close> is
  a read that returns 0 with no further event arriving while it waits. A \<open>Wait\<close> that cannot
  return (the reader would sleep until the next trigger) makes the step, and a schedule
  containing it, \<open>None\<close>.
\<close>
datatype actor_step = Trigger | Wait

fun step :: "axi_fpga_drvdata \<Rightarrow> actor_step \<Rightarrow> axi_fpga_drvdata option" where
  "step d Trigger = Some (fst (snd (axi_fpga_irq_handler d)))"
| "step d Wait =
     (case axi_fpga_read d [] of
        None \<Rightarrow> None
      | Some (r, d1, _) \<Rightarrow> if r = 0 then Some d1 else None)"

fun run_steps :: "axi_fpga_drvdata \<Rightarrow> actor_step list \<Rightarrow> axi_fpga_drvdata option" where
  "run_steps d [] = Some d"
| "run_steps d (a # as) = (case step d a of None \<Rightarrow> None | Some d1 \<Rightarrow> run_steps d1 as)"

subsection \<open>Session state machine\<close>

datatype session_call = Call_open | Call_release

fun do_session_call ::
  "kernel \<Rightarrow> axi_fpga_drvdata \<Rightarrow> session_call \<Rightarrow> int \<times> axi_fpga_drvdata" where
  "do_session_call k d Call_open = (case axi_fpga_open k d of (r, d1, _) \<Rightarrow> (r, d1))"
| "do_session_call k d Call_release = (case axi_fpga_release d of (r, d1, _) \<Rightarrow> (r, d1))"

fun do_session_calls ::
  "kernel \<Rightarrow> axi_fpga_drvdata \<Rightarrow> session_call list \<Rightarrow> int list \<times> axi_fpga_drvdata" where
  "do_session_calls k d [] = ([], d)"
| "do_session_calls k d (c # cs) =
     (case do_session_call k d c of (r, d1) \<Rightarrow>
        (case do_session_calls k d1 cs of (rs, d2) \<Rightarrow> (r # rs, d2)))"

text \<open>
  The state machine in the specification's words: \<open>Closed --open--> Open --close--> Closed\<close>,
  open on \<open>Open\<close> fails with \<open>AlreadyOpen\<close>, close on \<open>Closed\<close> fails with \<open>NotOpen\<close>.
\<close>
datatype sessionState = Closed | Open
datatype session_result = Success | AlreadyOpen | NotOpen

fun spec_session_call ::
  "sessionState \<Rightarrow> session_call \<Rightarrow> session_result \<times> sessionState" where
  "spec_session_call Open Call_open = (AlreadyOpen, Open)"
| "spec_session_call Closed Call_open = (Success, Open)"
| "spec_session_call Closed Call_release = (NotOpen, Closed)"
| "spec_session_call Open Call_release = (Success, Closed)"

fun spec_session_calls ::
  "sessionState \<Rightarrow> session_call list \<Rightarrow> session_result list \<times> sessionState" where
  "spec_session_calls s [] = ([], s)"
| "spec_session_calls s (c # cs) =
     (case spec_session_call s c of (r, s1) \<Rightarrow>
        (case spec_session_calls s1 cs of (rs, s2) \<Rightarrow> (r # rs, s2)))"

text \<open>The driver's return value for each result, and the session state it stores.\<close>
fun session_errno :: "session_result \<Rightarrow> int" where
  "session_errno Success = 0"
| "session_errno AlreadyOpen = - EBUSY"
| "session_errno NotOpen = - EIO"

definition sessionState_of :: "axi_fpga_drvdata \<Rightarrow> sessionState" where
  "sessionState_of d = (if dev_open d = 0 then Closed else Open)"

subsection \<open>Ownership transfer\<close>

text \<open>The DMA direction both sync commands pass on: \<^verbatim>\<open>DMA_TO_DEVICE\<close> when the
  descriptor's \<^verbatim>\<open>direction\<close> is nonzero.\<close>
definition sync_direction :: "int \<Rightarrow> dma_data_direction" where
  "sync_direction dir = (if dir \<noteq> 0 then DMA_TO_DEVICE else DMA_FROM_DEVICE)"

section \<open>Properties\<close>

subsection \<open>Helper facts\<close>

lemma PAGE_SIZE_val: "PAGE_SIZE = 4096"
  by (simp add: PAGE_SIZE_def PAGE_SHIFT_def)

lemma cmd_values:
  "AXI_FPGA_GET_PAGE = 0xC0106130"
  "AXI_FPGA_GIVE_PAGE = 0x40106131"
  "AXI_FPGA_TAKE_PAGE = 0x40106132"
  by (simp_all add: AXI_FPGA_GET_PAGE_def AXI_FPGA_GIVE_PAGE_def AXI_FPGA_TAKE_PAGE_def
      IOWR_def IOW_def IOC_def sizeof_buffer_addr_def)

lemma cmds_distinct:
  "AXI_FPGA_GIVE_PAGE \<noteq> AXI_FPGA_GET_PAGE"
  "AXI_FPGA_TAKE_PAGE \<noteq> AXI_FPGA_GET_PAGE"
  "AXI_FPGA_TAKE_PAGE \<noteq> AXI_FPGA_GIVE_PAGE"
  by (simp_all add: cmd_values)

lemma unat_buffer_bytes:
  assumes "bufferSize d < 2 ^ 32"
  shows "unat (buffer_bytes d) = bufferSize d"
proof -
  let ?n = "unat (fpga_buffer_npages d)"
  have lt: "(2::nat) ^ (?n + 12) < 2 ^ 32"
    using assms by (simp add: bufferSize_def power_add)
  have "buffer_bytes d = of_nat (2 ^ (?n + 12))"
    by (simp add: buffer_bytes_def PAGE_SIZE_val push_bit_eq_mult power_add)
  moreover have "unat (of_nat (2 ^ (?n + 12)) :: 32 word) = 2 ^ (?n + 12)"
  proof -
    have "unat (of_nat (2 ^ (?n + 12)) :: 32 word) = 2 ^ (?n + 12) mod 2 ^ LENGTH(32)"
      by (rule unat_of_nat)
    also have "\<dots> = 2 ^ (?n + 12)"
      using lt by simp
    finally show ?thesis .
  qed
  ultimately show ?thesis
    by (simp add: bufferSize_def power_add)
qed

lemma unat_expected_size:
  assumes "controlSize d + bufferSize d < 2 ^ 32"
  shows "unat (dev_size d + buffer_bytes d) = controlSize d + bufferSize d"
proof -
  have b: "unat (buffer_bytes d) = bufferSize d"
    using assms by (intro unat_buffer_bytes) simp
  have "unat (dev_size d) + unat (buffer_bytes d) < 2 ^ LENGTH(32)"
    using assms by (simp add: b controlSize_def)
  then have "unat (dev_size d + buffer_bytes d) = unat (dev_size d) + unat (buffer_bytes d)"
    by (simp only: unat_add_lem [THEN iffD1])
  then show ?thesis by (simp add: b controlSize_def)
qed

subsection \<open>The guard on the session state\<close>




text \<open>
  Poll's return value is an event mask; read as one, the converted \<^verbatim>\<open>-EIO\<close> has the
  input-ready bits set.
\<close>

lemma poll_closed_mask: "dev_open d = 0 \<Longrightarrow> fst (axi_fpga_poll d) AND input_ready = input_ready"
  by (simp add: axi_fpga_poll_def EIO_def input_ready_def POLLIN_def POLLRDNORM_def)






subsection \<open>open\<close>

lemma open_when_open: "dev_open d \<noteq> 0 \<Longrightarrow> axi_fpga_open k d = (- EBUSY, d, [])"
  by (simp add: axi_fpga_open_def)

lemma open_succeeds:
  "dev_open d = 0 \<Longrightarrow> request_irq k (irq_number d) = 0 \<Longrightarrow>
   axi_fpga_open k d = (0, d\<lparr>dev_open := 1\<rparr>, [Request_irq (irq_number d)])"
  by (simp add: axi_fpga_open_def)

lemma open_irq_failure:
  "dev_open d = 0 \<Longrightarrow> request_irq k (irq_number d) \<noteq> 0 \<Longrightarrow>
   axi_fpga_open k d = (- EBUSY, d\<lparr>dev_open := 1\<rparr>, [Request_irq (irq_number d)])"
  by (simp add: axi_fpga_open_def)

text \<open>
  C2. When the interrupt line cannot be acquired, open is to report InterruptUnavailable
  and leave the session closed, so that a later open is not rejected as AlreadyOpen. The
  source sets \<^verbatim>\<open>dev_open\<close> before it calls \<^verbatim>\<open>request_irq\<close> and returns on failure
  without resetting it. On the closed example device, with a kernel whose
  \<^verbatim>\<open>request_irq\<close> fails, open returns \<^verbatim>\<open>-EBUSY\<close> (the value it also returns for
  AlreadyOpen) and leaves \<^verbatim>\<open>dev_open = 1\<close>; the next open, with a kernel that would grant
  the line, is rejected with \<^verbatim>\<open>-EBUSY\<close> without asking for it.
\<close>
theorem open_irq_failure_leaves_session_open:
  "dev_open example_dev = 0
   \<and> axi_fpga_open (example_kernel\<lparr>request_irq := (\<lambda>_. - 16)\<rparr>) example_dev =
       (- EBUSY, example_dev\<lparr>dev_open := 1\<rparr>, [Request_irq 61])
   \<and> axi_fpga_open example_kernel (example_dev\<lparr>dev_open := 1\<rparr>) =
       (- EBUSY, example_dev\<lparr>dev_open := 1\<rparr>, [])"
  by (simp add: axi_fpga_open_def example_dev_def example_kernel_def)

subsection \<open>read\<close>

lemma read_latched:
  "dev_open d \<noteq> 0 \<Longrightarrow> irq_happened d = 1 \<Longrightarrow>
   axi_fpga_read d evs = Some (0, d\<lparr>irq_happened := 0\<rparr>, evs)"
  by (cases evs) (simp_all add: axi_fpga_read_def)

lemma read_woken_by_irq:
  "dev_open d \<noteq> 0 \<Longrightarrow> irq_happened d \<noteq> 1 \<Longrightarrow>
   axi_fpga_read d (Irq_fires # evs) = Some (0, d\<lparr>irq_happened := 0\<rparr>, evs)"
  by (cases evs) (simp_all add: axi_fpga_read_def axi_fpga_irq_handler_def)

lemma read_interrupted:
  "dev_open d \<noteq> 0 \<Longrightarrow> irq_happened d \<noteq> 1 \<Longrightarrow>
   axi_fpga_read d (Signal_pending # evs) = Some (0, d\<lparr>irq_happened := 0\<rparr>, evs)"
  by (simp add: axi_fpga_read_def)

lemma read_sleeps: "dev_open d \<noteq> 0 \<Longrightarrow> irq_happened d \<noteq> 1 \<Longrightarrow> axi_fpga_read d [] = None"
  by (simp add: axi_fpga_read_def)

text \<open>
  C3. A blocking read ended by a signal is to return a result that differs from the normal
  zero-length success. The source discards the value of \<^verbatim>\<open>wait_event_interruptible\<close>:
  on the open example device with no event latched, a read woken by a signal returns 0 and
  leaves the same state as a read woken by the interrupt, although the wait itself returned
  \<^verbatim>\<open>-ERESTARTSYS\<close>.
\<close>
theorem read_interrupted_returns_success:
  "wait_event_interruptible (\<lambda>d. irq_happened d = 1) example_open_dev [Signal_pending] =
     Some (- ERESTARTSYS, example_open_dev, [])
   \<and> axi_fpga_read example_open_dev [Signal_pending] = Some (0, example_open_dev, [])
   \<and> axi_fpga_read example_open_dev [Irq_fires] = Some (0, example_open_dev, [])"
  by (simp add: axi_fpga_read_def axi_fpga_irq_handler_def example_open_dev_def example_dev_def)

subsection \<open>mmap\<close>

lemma mmap_accepts:
  assumes "dev_open d \<noteq> 0" and "vm_pgoff vma = 0"
    and "vm_end vma - vm_start vma = dev_size d + buffer_bytes d"
    and "\<And>a p n pr. remap_pfn_range k a p n pr = 0"
  shows "axi_fpga_mmap k d vma =
    (0, d,
     vma\<lparr>vm_page_prot := pgprot_noncached k (vm_page_prot vma),
         vm_ops := Some axi_fpga_mmap_ops\<rparr>,
     [Remap_pfn_range (vm_start vma) (drop_bit PAGE_SHIFT (dev_physaddr d)) (dev_size d)
        (pgprot_noncached k (vm_page_prot vma)),
      Remap_pfn_range (dev_size d) (page_to_pfn k (fpga_buffer_pages d)) (buffer_bytes d)
        (pgprot_noncached k (vm_page_prot vma))])"
  using assms by (simp add: axi_fpga_mmap_def Let_def)

text \<open>
  C4. A successful map is to lay the region out with the control window at offsets
  \<open>[0, controlSize)\<close> from the region's base and the buffer at offsets
  \<open>[controlSize, controlSize + bufferSize)\<close> of the same region, both uncached. The first
  \<^verbatim>\<open>remap_pfn_range\<close> starts at \<^verbatim>\<open>vma->vm_start\<close>; for the second the source sets
  \<^verbatim>\<open>addr = d->dev_size\<close>, the bare control size, not \<^verbatim>\<open>vma->vm_start + d->dev_size\<close>.
  For the example request, whose region starts at 0x76F00000, the call returns 0 having
  mapped the buffer at user address 0x1000; the first byte of the buffer part of the
  region, 0x76F01000, is covered by neither call.
\<close>
theorem mmap_buffer_outside_region:
  "axi_fpga_mmap example_kernel example_open_dev example_vma =
     (0, example_open_dev,
      example_vma\<lparr>vm_page_prot := 0x03, vm_ops := Some axi_fpga_mmap_ops\<rparr>,
      [Remap_pfn_range 0x76F00000 0x40000 0x1000 0x03,
       Remap_pfn_range 0x1000 0x1F000 0x4000 0x03])
   \<and> vm_start example_vma + dev_size example_open_dev = 0x76F01000
   \<and> \<not> list_ex (remap_covers 0x76F01000)
         (snd (snd (snd (axi_fpga_mmap example_kernel example_open_dev example_vma))))"
  by (simp add: axi_fpga_mmap_def Let_def buffer_bytes_def PAGE_SIZE_def PAGE_SHIFT_def
      example_open_dev_def example_dev_def example_kernel_def example_vma_def drop_bit_eq_div)

text \<open>
  C5. On an open session a map request fails with \<^verbatim>\<open>-EINVAL\<close> whenever its offset is
  not zero, and whenever its size differs, by any amount, from
  \<open>controlSize + bufferSize\<close>, for every geometry that fits the 32-bit address space (as
  the geometry of a probed device does; then the word \<^verbatim>\<open>expected_size\<close> is that sum).
  In both cases no \<^verbatim>\<open>remap_pfn_range\<close> is made and neither the driver structure nor the
  \<^verbatim>\<open>vma\<close> is changed.
\<close>
theorem mmap_rejects_bad_geometry:
  assumes "dev_open d \<noteq> 0"
    and "vm_pgoff vma \<noteq> 0
      \<or> (controlSize d + bufferSize d < 2 ^ 32
          \<and> requestedSize vma \<noteq> controlSize d + bufferSize d)"
  shows "axi_fpga_mmap k d vma = (- EINVAL, d, vma, [])"
proof (cases "vm_pgoff vma = 0")
  case False
  with assms(1) show ?thesis by (simp add: axi_fpga_mmap_def)
next
  case True
  with assms(2) have fits: "controlSize d + bufferSize d < 2 ^ 32"
    and ne: "requestedSize vma \<noteq> controlSize d + bufferSize d" by simp_all
  from ne have "unat (vm_end vma - vm_start vma) \<noteq> unat (dev_size d + buffer_bytes d)"
    by (simp add: unat_expected_size [OF fits] requestedSize_def)
  then have "vm_end vma - vm_start vma \<noteq> dev_size d + buffer_bytes d"
    by auto
  with assms(1) True show ?thesis by (simp add: axi_fpga_mmap_def Let_def)
qed

text \<open>
  The example request shortened by one page, lengthened by one page, and moved to page
  offset 1.
\<close>
theorem mmap_rejects_bad_geometry_witness:
  "dev_open example_open_dev \<noteq> 0
   \<and> controlSize example_open_dev + bufferSize example_open_dev = 20480
   \<and> requestedSize (example_vma\<lparr>vm_end := 0x76F04000\<rparr>) = 16384
   \<and> axi_fpga_mmap example_kernel example_open_dev (example_vma\<lparr>vm_end := 0x76F04000\<rparr>) =
       (- EINVAL, example_open_dev, example_vma\<lparr>vm_end := 0x76F04000\<rparr>, [])
   \<and> requestedSize (example_vma\<lparr>vm_end := 0x76F06000\<rparr>) = 24576
   \<and> axi_fpga_mmap example_kernel example_open_dev (example_vma\<lparr>vm_end := 0x76F06000\<rparr>) =
       (- EINVAL, example_open_dev, example_vma\<lparr>vm_end := 0x76F06000\<rparr>, [])
   \<and> vm_pgoff (example_vma\<lparr>vm_pgoff := 1\<rparr>) \<noteq> 0
   \<and> axi_fpga_mmap example_kernel example_open_dev (example_vma\<lparr>vm_pgoff := 1\<rparr>) =
       (- EINVAL, example_open_dev, example_vma\<lparr>vm_pgoff := 1\<rparr>, [])"
proof -
  have h1: "dev_open example_open_dev \<noteq> 0"
    by (simp add: example_open_dev_def)
  have h2: "controlSize example_open_dev + bufferSize example_open_dev = 20480"
    by (simp add: controlSize_def bufferSize_def example_open_dev_def example_dev_def)
  have s1: "requestedSize (example_vma\<lparr>vm_end := 0x76F04000\<rparr>) = 16384"
    by (simp add: requestedSize_def example_vma_def)
  have s2: "requestedSize (example_vma\<lparr>vm_end := 0x76F06000\<rparr>) = 24576"
    by (simp add: requestedSize_def example_vma_def)
  have o: "vm_pgoff (example_vma\<lparr>vm_pgoff := 1\<rparr>) \<noteq> 0"
    by simp
  from mmap_rejects_bad_geometry [OF h1, of "example_vma\<lparr>vm_end := 0x76F04000\<rparr>" example_kernel]
    mmap_rejects_bad_geometry [OF h1, of "example_vma\<lparr>vm_end := 0x76F06000\<rparr>" example_kernel]
    mmap_rejects_bad_geometry [OF h1, of "example_vma\<lparr>vm_pgoff := 1\<rparr>" example_kernel]
    h1 h2 s1 s2 o
  show ?thesis by (simp add: example_vma_def)
qed

subsection \<open>poll\<close>

lemma poll_open:
  "dev_open d \<noteq> 0 \<Longrightarrow>
   axi_fpga_poll d = (if eventFlag d then input_ready else 0, d, [Poll_wait])"
  by (simp add: axi_fpga_poll_def eventFlag_def input_ready_def)

lemma poll_repeat_open:
  "dev_open d \<noteq> 0 \<Longrightarrow>
   poll_repeat n d = (replicate n (if eventFlag d then input_ready else 0), d)"
  by (induction n) (simp_all add: poll_open)

lemma input_ready_nonzero: "input_ready \<noteq> 0"
  by (simp add: input_ready_def POLLIN_def POLLRDNORM_def)

text \<open>
  C6. On an open session poll returns the input-ready mask \<^verbatim>\<open>POLLIN | POLLRDNORM\<close> when
  the event flag is set and the empty mask when it is not, and leaves the driver structure,
  the flag with it, as it was; so do \<open>n\<close> polls in a row, which all report the same.
\<close>
theorem poll_reports_flag_and_keeps_it:
  assumes "dev_open d \<noteq> 0"
  shows "(fst (axi_fpga_poll d) = input_ready \<longleftrightarrow> eventFlag d)
    \<and> (fst (axi_fpga_poll d) = 0 \<longleftrightarrow> \<not> eventFlag d)
    \<and> fst (snd (axi_fpga_poll d)) = d
    \<and> poll_repeat n d = (replicate n (if eventFlag d then input_ready else 0), d)"
  using assms input_ready_nonzero by (simp add: poll_open poll_repeat_open)

theorem poll_reports_flag_and_keeps_it_witness:
  "dev_open (example_open_dev\<lparr>irq_happened := 1\<rparr>) \<noteq> 0
   \<and> eventFlag (example_open_dev\<lparr>irq_happened := 1\<rparr>)
   \<and> fst (axi_fpga_poll (example_open_dev\<lparr>irq_happened := 1\<rparr>)) = input_ready
   \<and> poll_repeat 3 (example_open_dev\<lparr>irq_happened := 1\<rparr>) =
       ([input_ready, input_ready, input_ready], example_open_dev\<lparr>irq_happened := 1\<rparr>)"
proof -
  have h: "dev_open (example_open_dev\<lparr>irq_happened := 1\<rparr>) \<noteq> 0"
    by (simp add: example_open_dev_def)
  have e: "eventFlag (example_open_dev\<lparr>irq_happened := 1\<rparr>)"
    by (simp add: eventFlag_def)
  from poll_reports_flag_and_keeps_it [OF h, of 3] h e
  show ?thesis by (simp add: numeral_3_eq_3)
qed

subsection \<open>Triggers and waits\<close>

lemma run_steps_append:
  "run_steps d (xs @ ys) =
     (case run_steps d xs of None \<Rightarrow> None | Some d1 \<Rightarrow> run_steps d1 ys)"
  by (induction xs arbitrary: d) (simp_all split: option.splits)

lemma run_triggers:
  "0 < n \<Longrightarrow> run_steps d (replicate n Trigger) = Some (d\<lparr>irq_happened := 1\<rparr>)"
proof (induction n arbitrary: d)
  case 0
  then show ?case by simp
next
  case (Suc n)
  show ?case
  proof (cases n)
    case 0
    then show ?thesis by (simp add: axi_fpga_irq_handler_def)
  next
    case (Suc m)
    then have "run_steps (d\<lparr>irq_happened := 1\<rparr>) (replicate n Trigger)
      = Some (d\<lparr>irq_happened := 1\<rparr>\<lparr>irq_happened := 1\<rparr>)"
      using Suc.IH by simp
    then show ?thesis by (simp add: axi_fpga_irq_handler_def)
  qed
qed

lemma wait_latched:
  "dev_open d \<noteq> 0 \<Longrightarrow> step (d\<lparr>irq_happened := 1\<rparr>) Wait = Some (d\<lparr>irq_happened := 0\<rparr>)"
  by (simp add: axi_fpga_read_def)

lemma wait_idle:
  "dev_open d \<noteq> 0 \<Longrightarrow> step (d\<lparr>irq_happened := 0\<rparr>) Wait = None"
  by (simp add: axi_fpga_read_def)

text \<open>
  C7. In the step relation of the hardware trigger and the blocking wait, on an open
  session: after any positive number of triggers (one, two or more) a wait returns
  successfully at once, clearing the flag, so a wait begun after a trigger observes it; a
  second wait after those triggers does not return, so the triggers between two waits
  yield exactly one successful return; and the read issued after a trigger returns 0
  whatever else happens afterwards, consuming none of the later events.
\<close>
theorem triggers_coalesce_no_lost_wakeup:
  assumes "dev_open d \<noteq> 0" and "0 < n"
  shows "run_steps d (replicate n Trigger @ [Wait]) = Some (d\<lparr>irq_happened := 0\<rparr>)
    \<and> run_steps d (replicate n Trigger @ [Wait, Wait]) = None
    \<and> axi_fpga_read (fst (snd (axi_fpga_irq_handler d))) evs =
        Some (0, d\<lparr>irq_happened := 0\<rparr>, evs)"
proof -
  have "axi_fpga_read (fst (snd (axi_fpga_irq_handler d))) evs =
      Some (0, d\<lparr>irq_happened := 0\<rparr>, evs)"
    using assms(1) by (cases evs) (simp_all add: axi_fpga_read_def axi_fpga_irq_handler_def)
  with assms show ?thesis
    by (simp add: run_steps_append run_triggers wait_latched wait_idle del: step.simps)
qed

theorem triggers_coalesce_no_lost_wakeup_witness:
  "dev_open example_open_dev \<noteq> 0 \<and> (0::nat) < 2
   \<and> run_steps example_open_dev [Trigger, Trigger, Wait] = Some example_open_dev
   \<and> run_steps example_open_dev [Trigger, Trigger, Wait, Wait] = None
   \<and> axi_fpga_read (fst (snd (axi_fpga_irq_handler example_open_dev)))
        [Signal_pending, Irq_fires] = Some (0, example_open_dev, [Signal_pending, Irq_fires])"
proof -
  have h: "dev_open example_open_dev \<noteq> 0"
    by (simp add: example_open_dev_def)
  have e: "example_open_dev\<lparr>irq_happened := 0\<rparr> = example_open_dev"
    by (simp add: example_open_dev_def example_dev_def)
  have r: "replicate 2 Trigger = [Trigger, Trigger]"
    by (simp add: numeral_2_eq_2)
  from triggers_coalesce_no_lost_wakeup [OF h, of 2 "[Signal_pending, Irq_fires]"] h
  show ?thesis by (simp add: e r del: run_steps.simps)
qed

subsection \<open>Session state machine\<close>

lemma release_when_closed: "dev_open d = 0 \<Longrightarrow> axi_fpga_release d = (- EIO, d, [])"
  by (simp add: axi_fpga_release_def)

lemma release_when_open:
  "dev_open d \<noteq> 0 \<Longrightarrow>
   axi_fpga_release d = (0, d\<lparr>dev_open := 0\<rparr>, [Free_irq (irq_number d)])"
  by (simp add: axi_fpga_release_def)

lemma do_session_call_refines:
  assumes "request_irq k (irq_number d) = 0"
    and "do_session_call k d c = (r, d1)"
    and "spec_session_call (sessionState_of d) c = (sr, s1)"
  shows "r = session_errno sr \<and> sessionState_of d1 = s1 \<and> irq_number d1 = irq_number d"
  using assms
  by (cases c; cases "dev_open d = 0")
     (auto simp: axi_fpga_open_def axi_fpga_release_def sessionState_of_def Let_def)

lemma do_session_calls_refine:
  "request_irq k (irq_number d) = 0 \<Longrightarrow>
   fst (do_session_calls k d cs) =
     map session_errno (fst (spec_session_calls (sessionState_of d) cs))
   \<and> sessionState_of (snd (do_session_calls k d cs)) =
       snd (spec_session_calls (sessionState_of d) cs)"
proof (induction cs arbitrary: d)
  case Nil
  then show ?case by simp
next
  case (Cons c cs)
  obtain r d1 where c1: "do_session_call k d c = (r, d1)"
    by (cases "do_session_call k d c")
  obtain sr s1 where c2: "spec_session_call (sessionState_of d) c = (sr, s1)"
    by (cases "spec_session_call (sessionState_of d) c")
  from do_session_call_refines [OF Cons.prems c1 c2]
  have r: "r = session_errno sr" and s: "sessionState_of d1 = s1"
    and i: "irq_number d1 = irq_number d" by simp_all
  from Cons.prems i have "request_irq k (irq_number d1) = 0" by simp
  from Cons.IH [OF this] show ?case
    by (auto simp: c1 c2 r s split: prod.splits)
qed

lemma open_release_cycle:
  assumes "dev_open d = 0" and "request_irq k (irq_number d) = 0"
  shows "do_session_calls k d (Call_open # Call_release # cs) =
     (0 # 0 # fst (do_session_calls k d cs), snd (do_session_calls k d cs))"
proof -
  have e: "d\<lparr>dev_open := 0\<rparr> = d" using assms(1) by simp
  from assms show ?thesis
    by (simp add: axi_fpga_open_def axi_fpga_release_def Let_def e split: prod.splits)
qed

lemma open_release_cycles:
  "dev_open d = 0 \<Longrightarrow> request_irq k (irq_number d) = 0 \<Longrightarrow>
   do_session_calls k d (concat (replicate n [Call_open, Call_release])) =
     (replicate (2 * n) 0, d)"
  by (induction n) (simp_all add: open_release_cycle del: do_session_calls.simps(2))

text \<open>
  C8. Open on an open session always returns \<^verbatim>\<open>-EBUSY\<close> (AlreadyOpen) and release on a
  closed session always returns \<^verbatim>\<open>-EIO\<close> (NotOpen), both without changing anything.
  When the interrupt line can be acquired, every sequence of open and release calls returns
  what the state machine \<open>Closed --open--> Open --close--> Closed\<close> prescribes and ends in
  the state it prescribes; and from a closed session any number of open-release cycles all
  succeed and give back the very structure they started from, on which open succeeds again.
\<close>
theorem session_state_machine:
  "(dev_open d \<noteq> 0 \<longrightarrow> axi_fpga_open k d = (- EBUSY, d, []))
   \<and> (dev_open d = 0 \<longrightarrow> axi_fpga_release d = (- EIO, d, []))
   \<and> (request_irq k (irq_number d) = 0 \<longrightarrow>
        fst (do_session_calls k d cs) =
          map session_errno (fst (spec_session_calls (sessionState_of d) cs))
        \<and> sessionState_of (snd (do_session_calls k d cs)) =
            snd (spec_session_calls (sessionState_of d) cs))
   \<and> (dev_open d = 0 \<and> request_irq k (irq_number d) = 0 \<longrightarrow>
        do_session_calls k d (concat (replicate n [Call_open, Call_release])) =
          (replicate (2 * n) 0, d)
        \<and> fst (axi_fpga_open k d) = 0)"
  using open_when_open [of d k] release_when_closed [of d]
    do_session_calls_refine [of k d cs] open_release_cycles [of d k n]
  by (simp add: axi_fpga_open_def Let_def)

theorem session_state_machine_witness:
  "dev_open example_open_dev \<noteq> 0
   \<and> axi_fpga_open example_kernel example_open_dev = (- EBUSY, example_open_dev, [])
   \<and> dev_open example_dev = 0
   \<and> request_irq example_kernel (irq_number example_dev) = 0
   \<and> axi_fpga_release example_dev = (- EIO, example_dev, [])
   \<and> fst (do_session_calls example_kernel example_dev
            [Call_release, Call_open, Call_open, Call_release, Call_release]) =
       [- EIO, 0, - EBUSY, 0, - EIO]
   \<and> do_session_calls example_kernel example_dev
        [Call_open, Call_release, Call_open, Call_release] = ([0, 0, 0, 0], example_dev)
   \<and> fst (axi_fpga_open example_kernel example_dev) = 0"
proof -
  have h1: "dev_open example_open_dev \<noteq> 0"
    by (simp add: example_open_dev_def)
  have h2: "dev_open example_dev = 0"
    by (simp add: example_dev_def)
  have h3: "request_irq example_kernel (irq_number example_dev) = 0"
    by (simp add: example_kernel_def)
  have s: "sessionState_of example_dev = Closed"
    by (simp add: sessionState_of_def h2)
  have r: "concat (replicate 2 [Call_open, Call_release]) =
      [Call_open, Call_release, Call_open, Call_release]"
    "replicate 4 (0::int) = [0, 0, 0, 0]"
    by (simp_all add: eval_nat_numeral)
  from session_state_machine [of example_open_dev example_kernel "[]" 0]
    session_state_machine [of example_dev example_kernel
      "[Call_release, Call_open, Call_open, Call_release, Call_release]" 2]
    h1 h2 h3
  show ?thesis
    by (simp add: s r del: do_session_calls.simps)
qed

subsection \<open>ioctl\<close>

lemma get_page:
  "get_user_pages k (virt_addr ubuf) = (res, pg) \<Longrightarrow>
   axi_fpga_ioctl k d AXI_FPGA_GET_PAGE ubuf =
     (if res = 0 then - EINVAL else 0, d,
      ubuf\<lparr>phys_addr := dma_map_page k pg (size_b ubuf) (sync_direction (direction ubuf))\<rparr>,
      [Get_user_pages (virt_addr ubuf),
       Dma_map_page pg (size_b ubuf) (sync_direction (direction ubuf))])"
  by (simp add: axi_fpga_ioctl_def sync_direction_def)

lemma ioctl_unknown_command:
  "cmd \<noteq> AXI_FPGA_GET_PAGE \<Longrightarrow> cmd \<noteq> AXI_FPGA_GIVE_PAGE \<Longrightarrow> cmd \<noteq> AXI_FPGA_TAKE_PAGE \<Longrightarrow>
   axi_fpga_ioctl k d cmd ubuf = (- ENOTTY, d, ubuf, [])"
  by (simp add: axi_fpga_ioctl_def)

text \<open>
  C9. A control call that fails is to return an error and change nothing: not the driver
  structure, not the caller's descriptor, and no DMA mapping is to be made. For GetPage the
  source only sets \<^verbatim>\<open>retval = -EINVAL\<close> when \<^verbatim>\<open>get_user_pages\<close> returns 0 and goes on:
  it calls \<^verbatim>\<open>dma_map_page\<close> on the page pointer that was never filled in and copies the
  descriptor, with the new \<^verbatim>\<open>phys_addr\<close>, back to the caller. When \<^verbatim>\<open>get_user_pages\<close>
  reports the failure as a negative error number (here \<^verbatim>\<open>-EFAULT\<close>, -14), the test
  \<^verbatim>\<open>!res\<close> is false and the call returns 0 as well.
\<close>
theorem get_page_failure_has_effects:
  "axi_fpga_ioctl (example_kernel\<lparr>get_user_pages := (\<lambda>_. (0, None))\<rparr>) example_open_dev
       AXI_FPGA_GET_PAGE example_buf =
     (- EINVAL, example_open_dev, example_buf\<lparr>phys_addr := 0x1E000000\<rparr>,
      [Get_user_pages 0x76F01000, Dma_map_page None 0x1000 DMA_TO_DEVICE])
   \<and> axi_fpga_ioctl (example_kernel\<lparr>get_user_pages := (\<lambda>_. (- 14, None))\<rparr>) example_open_dev
       AXI_FPGA_GET_PAGE example_buf =
     (0, example_open_dev, example_buf\<lparr>phys_addr := 0x1E000000\<rparr>,
      [Get_user_pages 0x76F01000, Dma_map_page None 0x1000 DMA_TO_DEVICE])
   \<and> example_buf\<lparr>phys_addr := 0x1E000000\<rparr> \<noteq> example_buf"
  by (simp add: axi_fpga_ioctl_def example_kernel_def example_buf_def)

text \<open>
  C10. Whatever the physical address, the size and the direction in the descriptor, and
  whatever the state of the device, GivePage performs \<^verbatim>\<open>dma_sync_single_for_device\<close> and
  TakePage performs \<^verbatim>\<open>dma_sync_single_for_cpu\<close> on exactly that address and size, with
  DMA direction \<^verbatim>\<open>DMA_TO_DEVICE\<close> if \<^verbatim>\<open>direction\<close> is nonzero and \<^verbatim>\<open>DMA_FROM_DEVICE\<close>
  otherwise, and returns 0; the address is not checked against anything, and the driver
  structure and the caller's descriptor are returned unchanged.
\<close>
theorem give_take_page_always_sync:
  "axi_fpga_ioctl k d AXI_FPGA_GIVE_PAGE ubuf =
     (0, d, ubuf,
      [Dma_sync_single_for_device (phys_addr ubuf) (size_b ubuf)
         (sync_direction (direction ubuf))])
   \<and> axi_fpga_ioctl k d AXI_FPGA_TAKE_PAGE ubuf =
     (0, d, ubuf,
      [Dma_sync_single_for_cpu (phys_addr ubuf) (size_b ubuf)
         (sync_direction (direction ubuf))])"
  by (simp add: axi_fpga_ioctl_def cmds_distinct sync_direction_def)

theorem give_take_page_always_sync_witness:
  "axi_fpga_ioctl example_kernel example_open_dev AXI_FPGA_GIVE_PAGE
       (example_buf\<lparr>phys_addr := 0xDEADB000, direction := 0\<rparr>) =
     (0, example_open_dev, example_buf\<lparr>phys_addr := 0xDEADB000, direction := 0\<rparr>,
      [Dma_sync_single_for_device 0xDEADB000 0x1000 DMA_FROM_DEVICE])
   \<and> axi_fpga_ioctl example_kernel example_open_dev AXI_FPGA_TAKE_PAGE
       (example_buf\<lparr>phys_addr := 0xDEADB000, direction := 0\<rparr>) =
     (0, example_open_dev, example_buf\<lparr>phys_addr := 0xDEADB000, direction := 0\<rparr>,
      [Dma_sync_single_for_cpu 0xDEADB000 0x1000 DMA_FROM_DEVICE])"
  using give_take_page_always_sync
    [of example_kernel example_open_dev "example_buf\<lparr>phys_addr := 0xDEADB000, direction := 0\<rparr>"]
  by (simp add: sync_direction_def example_buf_def)

end
